theory Spec2Isabelle
  imports Complex_Main "HOL-Library.Sublist"
begin

section \<open>Symbolic expressions as the notebooks build them\<close>

text \<open>
  The notebooks build formulas by applying Python's arithmetic operators to SymPy
  objects. The operators themselves live in SymPy, outside the repository, so an
  expression is recorded here as the tree of operator applications that the
  notebook code performs: \<open>Mul a b\<close> is the value of \<^verbatim>\<open>a * b\<close>, \<open>TrueDiv a b\<close> of
  \<^verbatim>\<open>a / b\<close>, \<open>Sub a b\<close> of \<^verbatim>\<open>a - b\<close> and \<open>Pow a b\<close> of \<^verbatim>\<open>a ** b\<close>. SymPy's operators are
  deterministic, so two equal trees stand for equal SymPy objects.
  \<open>Indexed label shape idx\<close> is the element \<^verbatim>\<open>base[idx]\<close> of
  \<^verbatim>\<open>sp.IndexedBase(label, shape=shape)\<close>.
\<close>

datatype expr =
    Symbol string
  | Integer int
  | ImaginaryUnit
  | Mul expr expr
  | TrueDiv expr expr
  | Sub expr expr
  | Pow expr expr
  | Indexed string "int list" "expr list"

datatype error =
    TypeError
  | IndexError
  | HelperError string

text \<open>Reading a positional argument tuple: \<^verbatim>\<open>args[k]\<close> raises IndexError out of range.\<close>

definition getitem :: "'a list \<Rightarrow> int \<Rightarrow> error + 'a" where
  "getitem xs k =
     (let n = int (length xs); j = (if k < 0 then k + n else k)
      in if j < 0 \<or> n \<le> j then Inl IndexError else Inr (xs ! nat j))"

subsection \<open>The two formulations of the Breit-Wigner dynamics\<close>

text \<open>
  \<^verbatim>\<open>
  def relativistic_breit_wigner(mass, mass0, gamma0):
      return gamma0 * mass0 / (mass0**2 - mass**2 - gamma0 * mass0 * sp.I)
  \<close>
\<close>

definition relativistic_breit_wigner :: "expr \<Rightarrow> expr \<Rightarrow> expr \<Rightarrow> expr" where
  "relativistic_breit_wigner mass mass0 gamma0 =
     TrueDiv (Mul gamma0 mass0)
       (Sub (Sub (Pow mass0 (Integer 2)) (Pow mass (Integer 2)))
            (Mul (Mul gamma0 mass0) ImaginaryUnit))"

text \<open>
  \<^verbatim>\<open>
  class RelativisticBreitWigner(DynamicsFunction):
      @classmethod
      def eval(cls, *args):
          mass = args[0]
          mass0 = args[1]
          gamma0 = args[2]
          return gamma0 * mass0 / (mass0**2 - mass**2 - gamma0 * mass0 * sp.I)
  \<close>
\<close>

definition RelativisticBreitWigner_eval :: "expr list \<Rightarrow> error + expr" where
  "RelativisticBreitWigner_eval args =
     (case getitem args 0 of Inl e \<Rightarrow> Inl e | Inr mass \<Rightarrow>
       (case getitem args 1 of Inl e \<Rightarrow> Inl e | Inr mass0 \<Rightarrow>
         (case getitem args 2 of Inl e \<Rightarrow> Inl e | Inr gamma0 \<Rightarrow>
            Inr (TrueDiv (Mul gamma0 mass0)
                   (Sub (Sub (Pow mass0 (Integer 2)) (Pow mass (Integer 2)))
                        (Mul (Mul gamma0 mass0) ImaginaryUnit))))))"

text \<open>
  Calling the class, \<^verbatim>\<open>RelativisticBreitWigner(mass, mass0, gamma0)\<close>, goes through the
  constructor of \<^verbatim>\<open>sp.Function\<close>, which hands the arguments to \<^verbatim>\<open>eval\<close> and returns what
  \<^verbatim>\<open>eval\<close> returns. The \<^verbatim>\<open>eval\<close> above never returns \<^verbatim>\<open>None\<close>, so the constructed value
  is its result.
\<close>

definition RelativisticBreitWigner :: "expr list \<Rightarrow> error + expr" where
  "RelativisticBreitWigner args = RelativisticBreitWigner_eval args"

subsection \<open>The value of a formula\<close>

text \<open>
  The complex number a tree denotes under a valuation of its symbols. It is undefined
  (\<open>None\<close>) for a division by zero, for a power whose exponent is not an integer
  literal, and for indexed elements, which the valuation does not cover.
\<close>

fun denote :: "(string \<Rightarrow> complex) \<Rightarrow> expr \<Rightarrow> complex option" where
  "denote v (Symbol x) = Some (v x)"
| "denote v (Integer k) = Some (of_int k)"
| "denote v ImaginaryUnit = Some \<i>"
| "denote v (Mul a b) =
     (case (denote v a, denote v b) of (Some x, Some y) \<Rightarrow> Some (x * y) | _ \<Rightarrow> None)"
| "denote v (TrueDiv a b) =
     (case (denote v a, denote v b) of
        (Some x, Some y) \<Rightarrow> (if y = 0 then None else Some (x / y))
      | _ \<Rightarrow> None)"
| "denote v (Sub a b) =
     (case (denote v a, denote v b) of (Some x, Some y) \<Rightarrow> Some (x - y) | _ \<Rightarrow> None)"
| "denote v (Pow a (Integer k)) =
     (case denote v a of
        Some x \<Rightarrow> (if x = 0 \<and> k < 0 then None else Some (x powi k))
      | None \<Rightarrow> None)"
| "denote v (Pow a b) = None"
| "denote v (Indexed l s i) = None"

subsection \<open>The matrix of indexed symbols\<close>

text \<open>
  \<^verbatim>\<open>
  def create_symbol_matrix(name: str, n: int) -> sp.Matrix:
      symbol = sp.IndexedBase("K", shape=(n, n))
      return sp.Matrix([[symbol[i, j] for j in range(n)] for i in range(n)])
  \<close>
  A matrix is the list of its rows. \<^verbatim>\<open>range(n)\<close> is empty for \<open>n \<le> 0\<close>.
\<close>

definition py_range :: "int \<Rightarrow> int list" where
  "py_range n = map int [0..<nat n]"

definition create_symbol_matrix :: "string \<Rightarrow> int \<Rightarrow> expr list list" where
  "create_symbol_matrix name n =
     map (\<lambda>i. map (\<lambda>j. Indexed ''K'' [n, n] [Integer i, Integer j]) (py_range n)) (py_range n)"

subsection \<open>Python values, unpacking and calls\<close>

text \<open>
  The fields of a \<^verbatim>\<open>DynamicsExpression\<close> hold arbitrary Python objects: the class is
  declared with \<^verbatim>\<open>@frozen\<close> and no validators, so its type annotations are not enforced.
  The objects the notebook stores there are SymPy expressions, tuples and the
  function \<^verbatim>\<open>relativistic_breit_wigner\<close> itself.
\<close>

datatype pyfunction = relativistic_breit_wigner_function

datatype pyobj =
    Expr expr
  | Tuple "pyobj list"
  | Function pyfunction

text \<open>
  \<^verbatim>\<open>*x\<close> in an argument list iterates over \<open>x\<close>; a tuple yields its elements, a SymPy
  expression or a function is not iterable and raises TypeError.
\<close>

fun unpack :: "pyobj \<Rightarrow> error + pyobj list" where
  "unpack (Tuple xs) = Inr xs"
| "unpack (Expr e) = Inl TypeError"
| "unpack (Function f) = Inl TypeError"

text \<open>
  Calling \<^verbatim>\<open>relativistic_breit_wigner\<close> needs exactly three positional arguments; its
  body applies SymPy's arithmetic to them, which raises TypeError on a tuple or a
  function.
\<close>

fun call_function :: "pyfunction \<Rightarrow> pyobj list \<Rightarrow> error + pyobj" where
  "call_function relativistic_breit_wigner_function [Expr mass, Expr mass0, Expr gamma0] =
     Inr (Expr (relativistic_breit_wigner mass mass0 gamma0))"
| "call_function relativistic_breit_wigner_function args = Inl TypeError"

text \<open>
  A call \<^verbatim>\<open>f(...)\<close>. A function is called. A SymPy expression, a bare symbol included, and
  a tuple are not callable in the SymPy version the notebook pins (1.8): calling one
  raises TypeError.
\<close>

fun callable :: "pyobj \<Rightarrow> bool" where
  "callable (Function f) = True"
| "callable (Expr e) = False"
| "callable (Tuple xs) = False"

fun call :: "pyobj \<Rightarrow> pyobj list \<Rightarrow> error + pyobj" where
  "call (Function f) args = call_function f args"
| "call (Expr e) args = Inl TypeError"
| "call (Tuple xs) args = Inl TypeError"

text \<open>
  \<^verbatim>\<open>
  @frozen
  class DynamicsExpression:
      variables: tuple[sp.Symbol, ...]
      parameters: tuple[sp.Symbol, ...]
      expression: sp.Expr

      def substitute(self) -> sp.Expr:
          return self.expression(*self.variables, *self.parameters)
  \<close>
  The argument list is built left to right before the call is made.
\<close>

record DynamicsExpression =
  variables :: pyobj
  parameters :: pyobj
  expression :: pyobj

definition substitute :: "DynamicsExpression \<Rightarrow> error + pyobj" where
  "substitute self =
     (case unpack (variables self) of Inl e \<Rightarrow> Inl e | Inr vs \<Rightarrow>
       (case unpack (parameters self) of Inl e \<Rightarrow> Inl e | Inr ps \<Rightarrow>
          call (expression self) (vs @ ps)))"

subsection \<open>Building the dynamics of an edge\<close>

text \<open>Python's \<^verbatim>\<open>str\<close> of an integer and \<^verbatim>\<open>sep.join\<close>.\<close>

definition digit :: "nat \<Rightarrow> char" where
  "digit d =
     (if d = 0 then CHR ''0'' else if d = 1 then CHR ''1'' else if d = 2 then CHR ''2''
      else if d = 3 then CHR ''3'' else if d = 4 then CHR ''4'' else if d = 5 then CHR ''5''
      else if d = 6 then CHR ''6'' else if d = 7 then CHR ''7'' else if d = 8 then CHR ''8''
      else CHR ''9'')"

fun str_nat :: "nat \<Rightarrow> string" where
  "str_nat n = (if n < 10 then [digit n] else str_nat (n div 10) @ [digit (n mod 10)])"

declare str_nat.simps [simp del]

definition str :: "int \<Rightarrow> string" where
  "str k = (if k < 0 then CHR ''-'' # str_nat (nat (- k)) else str_nat (nat k))"

fun join :: "string \<Rightarrow> string list \<Rightarrow> string" where
  "join sep [] = []"
| "join sep [x] = x"
| "join sep (x # y # ys) = x @ sep @ join sep (y # ys)"

text \<open>
  The builder reads the graph through two entry points of the module \<^verbatim>\<open>helpers\<close>, which
  the notebook imports. They are parameters here, over an arbitrary type \<open>'g\<close> of state
  transition graphs; either may raise. Of a particle only the attribute \<^verbatim>\<open>latex\<close> is
  read.
\<close>

record Particle =
  latex :: string

record ('g, 'p) helpers =
  determine_attached_final_state :: "'g \<Rightarrow> int \<Rightarrow> error + int list"
  get_edge_props :: "'g \<Rightarrow> int \<Rightarrow> error + (Particle \<times> 'p)"

text \<open>
  \<^verbatim>\<open>
  def relativistic_breit_wigner_from_graph(graph, edge_id):
      edge_ids = determine_attached_final_state(graph, edge_id)
      final_state_ids = map(str, edge_ids)
      mass = sp.Symbol(f"m_{{{'+'.join(final_state_ids)}}}")
      particle, _ = graph.get_edge_props(edge_id)
      mass0 = sp.Symbol(f"m_{{{particle.latex}}}")
      gamma0 = sp.Symbol(Rf"\Gamma_{{{particle.latex}}}")
      return DynamicsExpression(
          variables=(mass),
          parameters=(mass0, gamma0),
          expression=relativistic_breit_wigner(mass, mass0, gamma0),
      )
  \<close>
  \<^verbatim>\<open>(mass)\<close> is a parenthesised expression, not a tuple.
\<close>

definition relativistic_breit_wigner_from_graph ::
  "('g, 'p) helpers \<Rightarrow> 'g \<Rightarrow> int \<Rightarrow> error + DynamicsExpression" where
  "relativistic_breit_wigner_from_graph h graph edge_id =
     (case determine_attached_final_state h graph edge_id of Inl e \<Rightarrow> Inl e
      | Inr edge_ids \<Rightarrow>
        let final_state_ids = map str edge_ids;
            mass = Symbol (''m_{'' @ join ''+'' final_state_ids @ ''}'')
        in (case get_edge_props h graph edge_id of Inl e \<Rightarrow> Inl e
            | Inr (particle, _) \<Rightarrow>
              let mass0 = Symbol (''m_{'' @ latex particle @ ''}'');
                  gamma0 = Symbol (CHR 0x5C # ''Gamma_{'' @ latex particle @ ''}'')
              in Inr \<lparr>variables = Expr mass,
                      parameters = Tuple [Expr mass0, Expr gamma0],
                      expression = Expr (relativistic_breit_wigner mass mass0 gamma0)\<rparr>))"

text \<open>
  The object the notebook builds by hand, with the function itself in the field
  \<^verbatim>\<open>expression\<close> and one-element and two-element tuples of symbols:
  \<^verbatim>\<open>
  bw_decay_f0 = DynamicsExpression(
      variables=sp.symbols("m_3+4", seq=True),
      parameters=sp.symbols(R"m_f(0)(980) \Gamma_f(0)(980)"),
      expression=relativistic_breit_wigner,
  )
  \<close>
\<close>

definition bw_decay_f0 :: DynamicsExpression where
  "bw_decay_f0 =
     \<lparr>variables = Tuple [Expr (Symbol ''m_3+4'')],
      parameters = Tuple [Expr (Symbol ''m_f(0)(980)''),
                          Expr (Symbol (CHR 0x5C # ''Gamma_f(0)(980)''))],
      expression = Function relativistic_breit_wigner_function\<rparr>"

section \<open>The project configuration\<close>

subsection \<open>Strings and file names\<close>

text \<open>
  A file is named by the list of the components of its path below the root of the
  repository: \<^verbatim>\<open>docs/report/019.ipynb\<close> is \<open>[''docs'', ''report'', ''019.ipynb'']\<close>.
  \<open>split\<close> is Python's \<^verbatim>\<open>str.split(sep)\<close>, \<open>lower\<close> is \<^verbatim>\<open>str.lower\<close> on ASCII letters,
  \<open>contains s sub\<close> is \<^verbatim>\<open>sub in s\<close>, and \<open>fnmatch\<close> is \<^verbatim>\<open>fnmatch.fnmatch(name, pat)\<close> for
  patterns made of literal characters, \<^verbatim>\<open>*\<close> and \<^verbatim>\<open>?\<close> (the configuration uses no
  bracket expression).
\<close>

fun split :: "char \<Rightarrow> string \<Rightarrow> string list" where
  "split sep [] = [[]]"
| "split sep (c # cs) =
     (if c = sep then [] # split sep cs
      else (case split sep cs of [] \<Rightarrow> [[c]] | w # ws \<Rightarrow> (c # w) # ws))"

definition lower :: "string \<Rightarrow> string" where
  "lower s =
     map (\<lambda>c. let n = (of_char c :: nat)
              in if 65 \<le> n \<and> n \<le> 90 then char_of (n + 32) else c) s"

fun startswith :: "string \<Rightarrow> string \<Rightarrow> bool" where
  "startswith s [] = True"
| "startswith [] (p # ps) = False"
| "startswith (c # cs) (p # ps) = (c = p \<and> startswith cs ps)"

fun contains :: "string \<Rightarrow> string \<Rightarrow> bool" where
  "contains [] sub = (sub = [])"
| "contains (c # cs) sub = (startswith (c # cs) sub \<or> contains cs sub)"

fun fnmatch :: "string \<Rightarrow> string \<Rightarrow> bool" where
  "fnmatch [] [] = True"
| "fnmatch (c # cs) [] = False"
| "fnmatch [] (p # ps) = (p = CHR ''*'' \<and> fnmatch [] ps)"
| "fnmatch (c # cs) (p # ps) =
     (if p = CHR ''*'' then fnmatch (c # cs) ps \<or> fnmatch cs (p # ps)
      else (p = CHR ''?'' \<or> p = c) \<and> fnmatch cs ps)"

subsection \<open>The test configuration\<close>

text \<open>
  The table \<^verbatim>\<open>[tool.pytest.ini_options]\<close> of the project file:
  \<^verbatim>\<open>
  addopts = [
      "--color=yes",
      "--doctest-continue-on-failure",
      "--doctest-modules",
      "--durations=0",
      "--ignore-glob=*/.ipynb_checkpoints/*",
      "--ignore=docs/adr/001/sympy.ipynb",
      "--ignore=docs/conf.py",
      "--nbmake-timeout=1200",
      "-k not docs/report/019.ipynb",
  ]
  norecursedirs = [".ipynb_checkpoints", ".virtual_documents", "_build", "docs/adr"]
  testpaths = [".pre-commit", "docs"]
  \<close>
\<close>

record pytest_ini_options =
  addopts :: "string list"
  filterwarnings :: "string list"
  norecursedirs :: "string list"
  testpaths :: "string list"

definition tool_pytest_ini_options :: pytest_ini_options where
  "tool_pytest_ini_options =
     \<lparr>addopts =
        [''--color=yes'',
         ''--doctest-continue-on-failure'',
         ''--doctest-modules'',
         ''--durations=0'',
         ''--ignore-glob=*/.ipynb_checkpoints/*'',
         ''--ignore=docs/adr/001/sympy.ipynb'',
         ''--ignore=docs/conf.py'',
         ''--nbmake-timeout=1200'',
         ''-k not docs/report/019.ipynb''],
      filterwarnings =
        [''error'',
         ''ignore:Passing a schema to Validator.iter_errors is deprecated.*:DeprecationWarning'',
         ''ignore:The .* argument to NotebookFile is deprecated.*:pytest.PytestRemovedIn8Warning'',
         ''ignore:open_text is deprecated.*:DeprecationWarning'',
         ''ignore:read_text is deprecated.*:DeprecationWarning'',
         ''ignore:unclosed .*:ResourceWarning''],
      norecursedirs =
        [''.ipynb_checkpoints'',
         ''.virtual_documents'',
         ''_build'',
         ''docs/adr''],
      testpaths =
        [''.pre-commit'',
         ''docs'']\<rparr>"

text \<open>
  The configuration is read by pytest and its plugin nbmake, which are not part of the
  repository. What follows is how these tools use the four kinds of entries above when
  pytest is started without paths on the command line.

  The values of an option that is written as one word with its value.
\<close>

definition option_values :: "string \<Rightarrow> string list \<Rightarrow> string list" where
  "option_values name opts =
     map (drop (length name)) (filter (\<lambda>a. take (length name) a = name) opts)"

text \<open>
  \<^verbatim>\<open>--ignore=path\<close> skips that file or directory; \<^verbatim>\<open>--ignore-glob=pat\<close> skips every path
  that matches the pattern. \<open>opts\<close> are the options in force: those of \<^verbatim>\<open>addopts\<close>
  followed by those of the command line.
\<close>

definition ignore_collect :: "string list \<Rightarrow> string list \<Rightarrow> bool" where
  "ignore_collect opts p =
     (p \<in> set (map (split CHR ''/'') (option_values ''--ignore='' opts))
      \<or> list_ex (fnmatch (join ''/'' p)) (option_values ''--ignore-glob='' opts))"

text \<open>
  \<^verbatim>\<open>norecursedirs\<close>: a directory is not entered when a pattern matches it. A pattern
  without \<^verbatim>\<open>/\<close> is matched against the name of the directory, a pattern with \<^verbatim>\<open>/\<close>
  against the end of its path.
\<close>

definition norecurse :: "pytest_ini_options \<Rightarrow> string list \<Rightarrow> bool" where
  "norecurse cfg d =
     list_ex
       (\<lambda>pat. if CHR ''/'' \<in> set pat
              then fnmatch (''/'' @ join ''/'' d) (''*/'' @ pat)
              else (case rev d of [] \<Rightarrow> False | name # _ \<Rightarrow> fnmatch name pat))
       (norecursedirs cfg)"

text \<open>
  The walk from a directory \<open>dir\<close> down to a file: every directory on the way must be
  entered, and the file itself must not be ignored.
\<close>

fun visit ::
  "pytest_ini_options \<Rightarrow> string list \<Rightarrow> string list \<Rightarrow> string list \<Rightarrow> bool" where
  "visit cfg opts dir [] = False"
| "visit cfg opts dir [name] = (\<not> ignore_collect opts (dir @ [name]))"
| "visit cfg opts dir (sub # rest) =
     (\<not> ignore_collect opts (dir @ [sub]) \<and> \<not> norecurse cfg (dir @ [sub])
      \<and> visit cfg opts (dir @ [sub]) rest)"

text \<open>\<^verbatim>\<open>testpaths\<close>: the directories the walk starts from.\<close>

definition collected :: "pytest_ini_options \<Rightarrow> string list \<Rightarrow> string list \<Rightarrow> bool" where
  "collected cfg opts f =
     list_ex
       (\<lambda>t. let d = split CHR ''/'' t
            in take (length d) f = d \<and> visit cfg opts d (drop (length d) f))
       (testpaths cfg)"

text \<open>
  \<^verbatim>\<open>-k expression\<close> keeps the tests the expression matches and deselects the others. A
  name in the expression matches a test when it occurs, letter case ignored, in the
  name of the test's file (its path below the root); \<^verbatim>\<open>not\<close> negates. Of the expression
  language only names and \<^verbatim>\<open>not\<close> are covered, which is what the configuration uses.
\<close>

datatype keyword_expression = Name string | Negation keyword_expression

function parse_keyword :: "string \<Rightarrow> keyword_expression" where
  "parse_keyword s =
     (if take 4 s = ''not ''
      then Negation (parse_keyword (dropWhile (\<lambda>c. c = CHR '' '') (drop 4 s)))
      else Name s)"
  by pat_completeness auto
termination
proof (relation "measure length")
  show "wf (measure length)" by simp
next
  fix s :: string
  assume "take 4 s = ''not ''"
  then have "s \<noteq> []" by auto
  then have "length (drop 4 s) < length s" by simp
  moreover have "length (dropWhile (\<lambda>c. c = CHR '' '') (drop 4 s)) \<le> length (drop 4 s)"
    by (rule length_dropWhile_le)
  ultimately show "(dropWhile (\<lambda>c. c = CHR '' '') (drop 4 s), s) \<in> measure length"
    by simp
qed

declare parse_keyword.simps [simp del]

fun matches :: "keyword_expression \<Rightarrow> string list \<Rightarrow> bool" where
  "matches (Name x) names = list_ex (\<lambda>n. contains (lower n) (lower x)) names"
| "matches (Negation e) names = (\<not> matches e names)"

definition deselected :: "string list \<Rightarrow> string list \<Rightarrow> bool" where
  "deselected opts f =
     (case rev (option_values ''-k'' opts) of
        [] \<Rightarrow> False
      | k # _ \<Rightarrow>
          \<not> matches (parse_keyword (dropWhile (\<lambda>c. c = CHR '' '') k)) [join ''/'' f])"

text \<open>
  nbmake turns a collected file into a test when the option \<^verbatim>\<open>--nbmake\<close> is in force and
  the name of the file matches \<^verbatim>\<open>*ipynb\<close>. \<open>cli\<close> are the options given on the command
  line (no paths are given there, so the walk starts from \<^verbatim>\<open>testpaths\<close>) and \<open>files\<close> are
  the files of the repository.
\<close>

definition is_notebook :: "string list \<Rightarrow> bool" where
  "is_notebook f = (case rev f of [] \<Rightarrow> False | name # _ \<Rightarrow> fnmatch name ''*ipynb'')"

definition tested ::
  "string list \<Rightarrow> pytest_ini_options \<Rightarrow> string list list \<Rightarrow> string list \<Rightarrow> bool" where
  "tested cli cfg files f =
     (let opts = addopts cfg @ cli
      in ''--nbmake'' \<in> set opts \<and> f \<in> set files \<and> is_notebook f
         \<and> collected cfg opts f \<and> \<not> deselected opts f)"




text \<open>Four notebooks of the repository.\<close>

definition source_notebooks :: "string list list" where
  "source_notebooks =
     [[''docs'', ''symbolics.ipynb''],
      [''docs'', ''report'', ''009.ipynb''],
      [''docs'', ''report'', ''022.ipynb''],
      [''docs'', ''adr'', ''002'', ''function.ipynb'']]"

subsection \<open>Files written by the build and by a notebook\<close>

text \<open>
  \<^verbatim>\<open>
  [tool.setuptools_scm]
  write_to = "version.py"
  \<close>
  names the file that setuptools\_scm writes at every build of the package.
\<close>

record setuptools_scm =
  write_to :: string

definition tool_setuptools_scm :: setuptools_scm where
  "tool_setuptools_scm = \<lparr>write_to = ''version.py''\<rparr>"

text \<open>
  The first and the last code cell of \<^verbatim>\<open>docs/report/009.ipynb\<close>:
  \<^verbatim>\<open>
  STATIC_WEB_PAGE = {"EXECUTE_NB", "READTHEDOCS"}.intersection(os.environ)

  if STATIC_WEB_PAGE:
      output_file = "009-relativistic-K-matrix-n1-r2.png"
      plt.savefig(output_file, dpi=150)
      display(Image(output_file))
  \<close>
  The environment is the list of its variables with their values. A file system maps
  paths below the root of the repository to contents; \<open>cwd\<close> is the directory the
  notebook is executed in and \<open>figure\<close> the image that \<^verbatim>\<open>savefig\<close> renders. \<^verbatim>\<open>savefig\<close>
  creates or replaces the file of the given name in \<open>cwd\<close>; \<^verbatim>\<open>display\<close> only reads it.
\<close>

definition STATIC_WEB_PAGE :: "(string \<times> string) list \<Rightarrow> string set" where
  "STATIC_WEB_PAGE environ = {''EXECUTE_NB'', ''READTHEDOCS''} \<inter> fst ` set environ"

definition save_figure_cell ::
  "string \<Rightarrow> (string \<times> string) list \<Rightarrow> string \<Rightarrow> (string \<rightharpoonup> string)
     \<Rightarrow> (string \<rightharpoonup> string)" where
  "save_figure_cell cwd environ figure fs =
     (if STATIC_WEB_PAGE environ \<noteq> {}
      then let output_file = ''009-relativistic-K-matrix-n1-r2.png''
           in fs(cwd @ ''/'' @ output_file \<mapsto> figure)
      else fs)"

text \<open>
  The two kinds of files the specification lets the repository persist: documentation
  sources (notebooks, markdown, TOML configuration), told by their suffix, and produced
  static pages, which the documentation build puts below a directory \<^verbatim>\<open>_build\<close> (the
  directory the configuration excludes from tests and type checks).
\<close>

definition is_documentation_source :: "string \<Rightarrow> bool" where
  "is_documentation_source p =
     (fnmatch p ''*.ipynb'' \<or> fnmatch p ''*.md'' \<or> fnmatch p ''*.toml'')"

definition is_static_page :: "string \<Rightarrow> bool" where
  "is_static_page p = (''_build'' \<in> set (butlast (split CHR ''/'' p)))"

section \<open>Theorems\<close>

text \<open>
  C8. The class-based and the function-based formulation of the Breit-Wigner dynamics
  agree: for all arguments \<open>mass\<close>, \<open>mass0\<close>, \<open>gamma0\<close>, constructing
  \<open>RelativisticBreitWigner(mass, mass0, gamma0)\<close> returns normally, and the expression
  it returns is the one \<open>relativistic_breit_wigner(mass, mass0, gamma0)\<close> returns. On
  symbols, that expression denotes
  \<open>gamma0 * mass0 / (mass0\<^sup>2 - mass\<^sup>2 - \<i> * gamma0 * mass0)\<close> wherever the denominator
  is not zero.
\<close>

theorem breit_wigner_class_equals_function:
  "RelativisticBreitWigner [mass, mass0, gamma0]
     = Inr (relativistic_breit_wigner mass mass0 gamma0)
   \<and> denote v (relativistic_breit_wigner (Symbol m) (Symbol m0) (Symbol g))
     = (if (v m0)\<^sup>2 - (v m)\<^sup>2 - \<i> * v g * v m0 = 0 then None
        else Some (v g * v m0 / ((v m0)\<^sup>2 - (v m)\<^sup>2 - \<i> * v g * v m0)))"
proof
  show "RelativisticBreitWigner [mass, mass0, gamma0]
     = Inr (relativistic_breit_wigner mass mass0 gamma0)"
    by (simp add: RelativisticBreitWigner_def RelativisticBreitWigner_eval_def
        relativistic_breit_wigner_def getitem_def)
next
  have comm: "v g * v m0 * \<i> = \<i> * v g * v m0"
    by (simp add: mult.commute mult.left_commute)
  show "denote v (relativistic_breit_wigner (Symbol m) (Symbol m0) (Symbol g))
     = (if (v m0)\<^sup>2 - (v m)\<^sup>2 - \<i> * v g * v m0 = 0 then None
        else Some (v g * v m0 / ((v m0)\<^sup>2 - (v m)\<^sup>2 - \<i> * v g * v m0)))"
    unfolding relativistic_breit_wigner_def
    by (simp add: comm power_int_def)
qed

text \<open>
  C9. \<open>create_symbol_matrix\<close> ignores its argument \<open>name\<close>: for every string \<open>name\<close> and
  every positive integer \<open>n\<close> the result has \<open>n\<close> rows of \<open>n\<close> entries each, the entry in
  row \<open>i\<close> and column \<open>j\<close> is the indexed symbol \<open>K[i, j]\<close> of the base \<open>K\<close> of shape
  \<open>(n, n)\<close>, and the result is the same for any other name.
\<close>

theorem create_symbol_matrix_ignores_name:
  assumes "0 < n"
  shows "length (create_symbol_matrix name n) = nat n
    \<and> (\<forall>i < nat n. length (create_symbol_matrix name n ! i) = nat n
         \<and> (\<forall>j < nat n. create_symbol_matrix name n ! i ! j
                = Indexed ''K'' [n, n] [Integer (int i), Integer (int j)]))
    \<and> create_symbol_matrix name n = create_symbol_matrix name' n"
  by (simp add: create_symbol_matrix_def py_range_def)

theorem create_symbol_matrix_ignores_name_witness:
  "(0::int) < 2
   \<and> create_symbol_matrix ''T'' 2 ! 1 ! 0 = Indexed ''K'' [2, 2] [Integer 1, Integer 0]
   \<and> length (create_symbol_matrix ''T'' 2) = 2
   \<and> create_symbol_matrix ''T'' 2 = create_symbol_matrix ''K'' 2"
proof -
  have pos: "(0::int) < 2" by simp
  have one: "(1::nat) < nat 2" and zero: "(0::nat) < nat 2" by simp_all
  from create_symbol_matrix_ignores_name [OF pos, of "''T''" "''K''"] one zero
  have "create_symbol_matrix ''T'' 2 ! 1 ! 0
          = Indexed ''K'' [2, 2] [Integer (int 1), Integer (int 0)]"
    and "length (create_symbol_matrix ''T'' 2) = nat 2"
    and "create_symbol_matrix ''T'' 2 = create_symbol_matrix ''K'' 2"
    by blast+
  with pos show ?thesis by simp
qed

text \<open>
  C10. Whenever \<open>relativistic_breit_wigner_from_graph\<close> returns a \<open>DynamicsExpression\<close>,
  its field \<open>variables\<close> holds a bare symbol and not a tuple, its field \<open>expression\<close>
  holds an expression that is already evaluated and is not callable, and
  \<open>substitute()\<close> on it raises TypeError. On any \<open>DynamicsExpression\<close>, \<open>substitute()\<close>
  returns normally only if the field \<open>expression\<close> holds a callable, that is a function
  such as \<open>relativistic_breit_wigner\<close>.
\<close>

theorem from_graph_substitute_raises_TypeError:
  "(relativistic_breit_wigner_from_graph h graph edge_id = Inr d \<longrightarrow>
      (\<exists>x. variables d = Expr (Symbol x))
      \<and> (\<forall>xs. variables d \<noteq> Tuple xs)
      \<and> (\<exists>e. expression d = Expr e)
      \<and> \<not> callable (expression d)
      \<and> substitute d = Inl TypeError)
   \<and> (substitute d' = Inr r \<longrightarrow>
        callable (expression d') \<and> (\<exists>f. expression d' = Function f))"
proof (intro conjI impI)
  assume built: "relativistic_breit_wigner_from_graph h graph edge_id = Inr d"
  then obtain mass mass0 gamma0 where d:
    "d = \<lparr>variables = Expr (Symbol mass),
          parameters = Tuple [Expr mass0, Expr gamma0],
          expression =
            Expr (relativistic_breit_wigner (Symbol mass) mass0 gamma0)\<rparr>"
    by (auto simp: relativistic_breit_wigner_from_graph_def Let_def
        split: sum.splits prod.splits)
  show "\<exists>x. variables d = Expr (Symbol x)" by (simp add: d)
  show "\<forall>xs. variables d \<noteq> Tuple xs" by (simp add: d)
  show "\<exists>e. expression d = Expr e" by (simp add: d)
  show "\<not> callable (expression d)" by (simp add: d)
  show "substitute d = Inl TypeError" by (simp add: d substitute_def)
next
  assume ok: "substitute d' = Inr r"
  then have called: "\<exists>args. call (expression d') args = Inr r"
    by (auto simp: substitute_def split: sum.splits)
  then show "callable (expression d')"
    by (cases "expression d'") auto
  from called show "\<exists>f. expression d' = Function f"
    by (cases "expression d'") auto
qed

theorem from_graph_substitute_raises_TypeError_witness:
  "relativistic_breit_wigner_from_graph
      \<lparr>determine_attached_final_state = (\<lambda>g e. Inr [3, 4]),
       get_edge_props = (\<lambda>g e. Inr (\<lparr>latex = ''f_{0}(980)''\<rparr>, ()))\<rparr> () 2
     = Inr \<lparr>variables = Expr (Symbol ''m_{3+4}''),
            parameters = Tuple [Expr (Symbol ''m_{f_{0}(980)}''),
                                Expr (Symbol (CHR 0x5C # ''Gamma_{f_{0}(980)}''))],
            expression = Expr (relativistic_breit_wigner (Symbol ''m_{3+4}'')
                                 (Symbol ''m_{f_{0}(980)}'')
                                 (Symbol (CHR 0x5C # ''Gamma_{f_{0}(980)}'')))\<rparr>
   \<and> substitute
        \<lparr>variables = Expr (Symbol ''m_{3+4}''),
         parameters = Tuple [Expr (Symbol ''m_{f_{0}(980)}''),
                             Expr (Symbol (CHR 0x5C # ''Gamma_{f_{0}(980)}''))],
         expression = Expr (relativistic_breit_wigner (Symbol ''m_{3+4}'')
                              (Symbol ''m_{f_{0}(980)}'')
                              (Symbol (CHR 0x5C # ''Gamma_{f_{0}(980)}'')))\<rparr>
     = Inl TypeError
   \<and> substitute bw_decay_f0
     = Inr (Expr (relativistic_breit_wigner (Symbol ''m_3+4'') (Symbol ''m_f(0)(980)'')
                    (Symbol (CHR 0x5C # ''Gamma_f(0)(980)''))))
   \<and> callable (expression bw_decay_f0)"
  (is "?built \<and> ?raises \<and> ?returns \<and> ?callable")
proof -
  have built: ?built
    by (simp add: relativistic_breit_wigner_from_graph_def Let_def str_def
        str_nat.simps digit_def)
  have returns: ?returns
    by (simp add: substitute_def bw_decay_f0_def)
  note inst = from_graph_substitute_raises_TypeError
  have raises: ?raises
    using inst [THEN conjunct1, rule_format, OF built] by simp
  have callable: ?callable
    using inst [THEN conjunct2, rule_format, OF returns] by simp
  from built raises returns callable show ?thesis by (intro conjI)
qed

subsection \<open>Which notebooks the test configuration runs\<close>


























subsection \<open>Files beyond documentation sources and static pages\<close>

text \<open>
  C7, as amended. The repository does persist files beyond documentation sources and
  static pages. The build configuration names \<open>version.py\<close> as the file that
  setuptools\_scm writes at every build, and the last cell of \<open>docs/report/009.ipynb\<close>, a
  notebook that the test configuration runs, writes
  \<open>009-relativistic-K-matrix-n1-r2.png\<close> into the directory of the notebook exactly when
  \<open>EXECUTE_NB\<close> or \<open>READTHEDOCS\<close> is set in the environment; neither file is a
  documentation source or a static page. The cell changes no other file.
\<close>

theorem notebook_and_build_write_other_files:
  "save_figure_cell ''docs/report'' environ figure fs p =
     (if (''EXECUTE_NB'' \<in> fst ` set environ \<or> ''READTHEDOCS'' \<in> fst ` set environ)
         \<and> p = ''docs/report/009-relativistic-K-matrix-n1-r2.png''
      then Some figure else fs p)
   \<and> \<not> is_documentation_source ''docs/report/009-relativistic-K-matrix-n1-r2.png''
   \<and> \<not> is_static_page ''docs/report/009-relativistic-K-matrix-n1-r2.png''
   \<and> tested [''--nbmake''] tool_pytest_ini_options source_notebooks
        [''docs'', ''report'', ''009.ipynb'']
   \<and> \<not> is_documentation_source (write_to tool_setuptools_scm)
   \<and> \<not> is_static_page (write_to tool_setuptools_scm)"
proof (intro conjI)
  show "save_figure_cell ''docs/report'' environ figure fs p =
     (if (''EXECUTE_NB'' \<in> fst ` set environ \<or> ''READTHEDOCS'' \<in> fst ` set environ)
         \<and> p = ''docs/report/009-relativistic-K-matrix-n1-r2.png''
      then Some figure else fs p)"
    by (auto simp: save_figure_cell_def STATIC_WEB_PAGE_def Let_def)
  show "\<not> is_documentation_source ''docs/report/009-relativistic-K-matrix-n1-r2.png''"
    by code_simp
  show "\<not> is_static_page ''docs/report/009-relativistic-K-matrix-n1-r2.png''"
    by code_simp
  show "tested [''--nbmake''] tool_pytest_ini_options source_notebooks
      [''docs'', ''report'', ''009.ipynb'']"
    by code_simp
  show "\<not> is_documentation_source (write_to tool_setuptools_scm)"
    by code_simp
  show "\<not> is_static_page (write_to tool_setuptools_scm)"
    by code_simp
qed

theorem notebook_and_build_write_other_files_witness:
  "save_figure_cell ''docs/report'' [(''READTHEDOCS'', ''True'')] ''PNG''
       [''docs/report/009.ipynb'' \<mapsto> ''{}'']
       ''docs/report/009-relativistic-K-matrix-n1-r2.png''
     = Some ''PNG''
   \<and> save_figure_cell ''docs/report'' [(''READTHEDOCS'', ''True'')] ''PNG''
       [''docs/report/009.ipynb'' \<mapsto> ''{}''] ''docs/report/009.ipynb''
     = Some ''{}''
   \<and> save_figure_cell ''docs/report'' [(''HOME'', ''/root'')] ''PNG''
       [''docs/report/009.ipynb'' \<mapsto> ''{}'']
       ''docs/report/009-relativistic-K-matrix-n1-r2.png''
     = None"
proof -
  have set_rtd: "''READTHEDOCS'' \<in> fst ` set [(''READTHEDOCS'', ''True'')]" by simp
  have unset: "\<not> (''EXECUTE_NB'' \<in> fst ` set [(''HOME'', ''/root'')]
      \<or> ''READTHEDOCS'' \<in> fst ` set [(''HOME'', ''/root'')])" by simp
  have other: "''docs/report/009.ipynb'' \<noteq> ''docs/report/009-relativistic-K-matrix-n1-r2.png''"
    by simp
  note cell = notebook_and_build_write_other_files [THEN conjunct1]
  have written: "save_figure_cell ''docs/report'' [(''READTHEDOCS'', ''True'')] ''PNG''
       [''docs/report/009.ipynb'' \<mapsto> ''{}'']
       ''docs/report/009-relativistic-K-matrix-n1-r2.png'' = Some ''PNG''"
    unfolding cell using set_rtd by simp
  have kept: "save_figure_cell ''docs/report'' [(''READTHEDOCS'', ''True'')] ''PNG''
       [''docs/report/009.ipynb'' \<mapsto> ''{}''] ''docs/report/009.ipynb'' = Some ''{}''"
    unfolding cell using other by simp
  have untouched: "save_figure_cell ''docs/report'' [(''HOME'', ''/root'')] ''PNG''
       [''docs/report/009.ipynb'' \<mapsto> ''{}'']
       ''docs/report/009-relativistic-K-matrix-n1-r2.png'' = None"
    unfolding cell using unset by simp
  from written kept untouched show ?thesis by (intro conjI)
qed

text \<open>
  C7 as stated fails: with \<open>EXECUTE_NB\<close> set, the last cell of \<open>docs/report/009.ipynb\<close>
  creates a file that is neither a documentation source nor a static page.
\<close>

theorem notebook_cell_writes_other_file:
  "save_figure_cell ''docs/report'' [(''EXECUTE_NB'', ''yes'')] ''PNG'' Map.empty
       ''docs/report/009-relativistic-K-matrix-n1-r2.png''
     \<noteq> Map.empty ''docs/report/009-relativistic-K-matrix-n1-r2.png''
   \<and> \<not> is_documentation_source ''docs/report/009-relativistic-K-matrix-n1-r2.png''
   \<and> \<not> is_static_page ''docs/report/009-relativistic-K-matrix-n1-r2.png''"
proof (intro conjI)
  show "save_figure_cell ''docs/report'' [(''EXECUTE_NB'', ''yes'')] ''PNG'' Map.empty
       ''docs/report/009-relativistic-K-matrix-n1-r2.png''
     \<noteq> Map.empty ''docs/report/009-relativistic-K-matrix-n1-r2.png''"
    by (simp add: save_figure_cell_def STATIC_WEB_PAGE_def)
  show "\<not> is_documentation_source ''docs/report/009-relativistic-K-matrix-n1-r2.png''"
    by code_simp
  show "\<not> is_static_page ''docs/report/009-relativistic-K-matrix-n1-r2.png''"
    by code_simp
qed

end
